theory Spec2Isabelle
  imports Main "HOL-Library.Multiset"
begin

section \<open>Python values: errors, list indexing, \<open>str\<close> of an integer\<close>

text \<open>
  The only exception the code of \<^verbatim>\<open>Taquin.py\<close> can raise on grids of integers is
  \<^verbatim>\<open>IndexError\<close> (a list index out of range). A computation that may raise returns
  \<open>error + 'a\<close>, with \<open>Inl\<close> the exception.
\<close>

datatype error = IndexError

text \<open>Python's \<^verbatim>\<open>xs[i]\<close>: a negative index counts from the end.\<close>

definition index_of :: "'a list \<Rightarrow> int \<Rightarrow> error + nat" where
  "index_of xs i =
     (let n = int (length xs); k = (if i < 0 then i + n else i)
      in if 0 \<le> k \<and> k < n then Inr (nat k) else Inl IndexError)"

definition getitem :: "'a list \<Rightarrow> int \<Rightarrow> error + 'a" where
  "getitem xs i = (case index_of xs i of Inl e \<Rightarrow> Inl e | Inr k \<Rightarrow> Inr (xs ! k))"

definition setitem :: "'a list \<Rightarrow> int \<Rightarrow> 'a \<Rightarrow> error + 'a list" where
  "setitem xs i v = (case index_of xs i of Inl e \<Rightarrow> Inl e | Inr k \<Rightarrow> Inr (xs[k := v]))"

text \<open>\<^verbatim>\<open>t[i][j]\<close> and \<^verbatim>\<open>t[i][j] = v\<close> on a list of lists.\<close>

definition getcell :: "'a list list \<Rightarrow> int \<Rightarrow> int \<Rightarrow> error + 'a" where
  "getcell t i j = (case getitem t i of Inl e \<Rightarrow> Inl e | Inr row \<Rightarrow> getitem row j)"

definition setcell :: "'a list list \<Rightarrow> int \<Rightarrow> int \<Rightarrow> 'a \<Rightarrow> error + 'a list list" where
  "setcell t i j v =
     (case index_of t i of
        Inl e \<Rightarrow> Inl e
      | Inr k \<Rightarrow> (case setitem (t ! k) j v of Inl e \<Rightarrow> Inl e | Inr row \<Rightarrow> Inr (t[k := row])))"

text \<open>Python's \<^verbatim>\<open>str(n)\<close> for an integer: decimal digits, with a leading minus sign.\<close>

definition digit_char :: "nat \<Rightarrow> char" where
  "digit_char d = ''0123456789'' ! (d mod 10)"

fun str_nat :: "nat \<Rightarrow> string" where
  "str_nat n = (if n < 10 then [digit_char n] else str_nat (n div 10) @ [digit_char (n mod 10)])"

declare str_nat.simps [simp del]

definition str :: "int \<Rightarrow> string" where
  "str i = (if i < 0 then CHR ''-'' # str_nat (nat (- i)) else str_nat (nat i))"

section \<open>class Puzzle\<close>

record puzzle =
  largeur :: nat
  table :: "int list list"

text \<open>\<^verbatim>\<open>Puzzle.__init__\<close>: \<^verbatim>\<open>len(table[0])\<close> raises on an empty grid; nothing else is checked.\<close>

definition Puzzle_init :: "int list list \<Rightarrow> error + puzzle" where
  "Puzzle_init tbl =
     (case getitem tbl 0 of
        Inl e \<Rightarrow> Inl e
      | Inr row0 \<Rightarrow> Inr \<lparr>largeur = length row0, table = tbl\<rparr>)"

text \<open>\<^verbatim>\<open>Puzzle.__iter__\<close> and \<^verbatim>\<open>Puzzle.__str__\<close>.\<close>

definition Puzzle_iter :: "puzzle \<Rightarrow> int list" where
  "Puzzle_iter self = concat (table self)"

definition Puzzle_str :: "puzzle \<Rightarrow> string" where
  "Puzzle_str self = concat (map str (Puzzle_iter self))"

definition Puzzle_est_resolu :: "puzzle \<Rightarrow> bool" where
  "Puzzle_est_resolu self =
     (let n = largeur self * largeur self
      in Puzzle_str self = concat (map str (map int [1..<n])) @ ''0'')"

definition Puzzle_copy :: "puzzle \<Rightarrow> error + puzzle" where
  "Puzzle_copy self = Puzzle_init (map (\<lambda>row. map (\<lambda>x. x) row) (table self))"

text \<open>
  \<^verbatim>\<open>Puzzle._move\<close>: the right-hand side of the tuple assignment is read first
  (\<^verbatim>\<open>copy.table[r][c]\<close>, then \<^verbatim>\<open>copy.table[i][j]\<close>), then the two cells are
  written from left to right.
\<close>

definition Puzzle_move :: "puzzle \<Rightarrow> int \<times> int \<Rightarrow> int \<times> int \<Rightarrow> error + puzzle" where
  "Puzzle_move self p1 p2 =
     (case Puzzle_copy self of
        Inl e \<Rightarrow> Inl e
      | Inr copy \<Rightarrow>
          (case (p1, p2) of
             ((i, j), (r, c)) \<Rightarrow>
               (case getcell (table copy) r c of
                  Inl e \<Rightarrow> Inl e
                | Inr v1 \<Rightarrow>
                    (case getcell (table copy) i j of
                       Inl e \<Rightarrow> Inl e
                     | Inr v2 \<Rightarrow>
                         (case setcell (table copy) i j v1 of
                            Inl e \<Rightarrow> Inl e
                          | Inr t1 \<Rightarrow>
                              (case setcell t1 r c v2 of
                                 Inl e \<Rightarrow> Inl e
                               | Inr t2 \<Rightarrow> Inr (copy\<lparr>table := t2\<rparr>)))))))"

text \<open>
  \<^verbatim>\<open>Puzzle.actions\<close>. A move is the closure \<^verbatim>\<open>lambda: self._move(p1, p2)\<close>, paired
  with the name of its direction. The dictionary \<^verbatim>\<open>direcs\<close> is read in insertion order.
\<close>

type_synonym move = "(unit \<Rightarrow> error + puzzle) \<times> string"

definition create_move :: "puzzle \<Rightarrow> int \<times> int \<Rightarrow> int \<times> int \<Rightarrow> unit \<Rightarrow> error + puzzle" where
  "create_move self p1 p2 = (\<lambda>_. Puzzle_move self p1 p2)"

definition direcs :: "int \<Rightarrow> int \<Rightarrow> (string \<times> int \<times> int) list" where
  "direcs i j = [(''D'', (i, j - 1)), (''G'', (i, j + 1)), (''B'', (i - 1, j)), (''H'', (i + 1, j))]"

fun actions_direcs ::
  "puzzle \<Rightarrow> int \<times> int \<Rightarrow> (string \<times> int \<times> int) list \<Rightarrow> move list \<Rightarrow> error + move list" where
  "actions_direcs self p1 [] moves = Inr moves"
| "actions_direcs self p1 ((action, (r, c)) # ds) moves =
     (if 0 \<le> r \<and> r < int (largeur self) \<and> 0 \<le> c \<and> c < int (largeur self)
      then (case getcell (table self) r c of
              Inl e \<Rightarrow> Inl e
            | Inr v \<Rightarrow>
                if v = 0
                then actions_direcs self p1 ds (moves @ [(create_move self p1 (r, c), action)])
                else actions_direcs self p1 ds moves)
      else actions_direcs self p1 ds moves)"

fun actions_cells :: "puzzle \<Rightarrow> (int \<times> int) list \<Rightarrow> move list \<Rightarrow> error + move list" where
  "actions_cells self [] moves = Inr moves"
| "actions_cells self ((i, j) # ps) moves =
     (case actions_direcs self (i, j) (direcs i j) moves of
        Inl e \<Rightarrow> Inl e
      | Inr moves' \<Rightarrow> actions_cells self ps moves')"

definition py_range :: "nat \<Rightarrow> int list" where
  "py_range n = map int [0..<n]"

definition Puzzle_actions :: "puzzle \<Rightarrow> error + move list" where
  "Puzzle_actions self =
     actions_cells self (List.product (py_range (largeur self)) (py_range (largeur self))) []"

text \<open>
  \<^verbatim>\<open>Puzzle.manhattan\<close>: the two nested loops over \<^verbatim>\<open>range(3)\<close> visit the cells in
  row-major order; \<^verbatim>\<open>divmod\<close> is floor division, as \<open>div\<close> and \<open>mod\<close> on \<open>int\<close>.
\<close>

fun manhattan_cells :: "int list list \<Rightarrow> (int \<times> int) list \<Rightarrow> int \<Rightarrow> error + int" where
  "manhattan_cells t [] distance = Inr distance"
| "manhattan_cells t ((i, j) # ps) distance =
     (case getcell t i j of
        Inl e \<Rightarrow> Inl e
      | Inr v \<Rightarrow>
          if v \<noteq> 0
          then (let x = (v - 1) div 3; y = (v - 1) mod 3
                in manhattan_cells t ps (distance + (\<bar>x - i\<bar> + \<bar>y - j\<bar>)))
          else manhattan_cells t ps distance)"

definition Puzzle_manhattan :: "puzzle \<Rightarrow> error + int" where
  "Puzzle_manhattan self = manhattan_cells (table self) (List.product (py_range 3) (py_range 3)) 0"

section \<open>class Noeud\<close>

text \<open>
  A search node owns its puzzle, an optional parent node and an optional action name;
  \<^verbatim>\<open>Noeud.__init__\<close> computes \<open>g\<close> from the parent.
\<close>

datatype noeud =
  MkNoeud (Noeud_puzzle: puzzle) (Noeud_parent: "noeud option")
    (Noeud_action: "string option") (Noeud_g: int)

definition Noeud :: "puzzle \<Rightarrow> noeud option \<Rightarrow> string option \<Rightarrow> noeud" where
  "Noeud pz par act =
     MkNoeud pz par act (case par of Some p \<Rightarrow> Noeud_g p + 1 | None \<Rightarrow> 0)"

definition Noeud_str :: "noeud \<Rightarrow> string" where
  "Noeud_str self = Puzzle_str (Noeud_puzzle self)"

definition Noeud_etat :: "noeud \<Rightarrow> string" where
  "Noeud_etat self = Noeud_str self"

text \<open>
  \<^verbatim>\<open>Noeud.chemin\<close>: the loop appends the node and each of its ancestors to \<open>p\<close>
  (a node object is always truthy, \<^verbatim>\<open>None\<close> ends the loop); the result is \<open>p\<close> reversed.
\<close>

fun chemin_loop :: "noeud \<Rightarrow> noeud list \<Rightarrow> noeud list" where
  "chemin_loop (MkNoeud pz None act k) p = p @ [MkNoeud pz None act k]"
| "chemin_loop (MkNoeud pz (Some par) act k) p = chemin_loop par (p @ [MkNoeud pz (Some par) act k])"

definition Noeud_chemin :: "noeud \<Rightarrow> noeud list" where
  "Noeud_chemin self = rev (chemin_loop self [])"

definition Noeud_est_resolu :: "noeud \<Rightarrow> bool" where
  "Noeud_est_resolu self = Puzzle_est_resolu (Noeud_puzzle self)"

definition Noeud_actions :: "noeud \<Rightarrow> error + move list" where
  "Noeud_actions self = Puzzle_actions (Noeud_puzzle self)"

definition Noeud_h :: "noeud \<Rightarrow> error + int" where
  "Noeud_h self = Puzzle_manhattan (Noeud_puzzle self)"

definition Noeud_f :: "noeud \<Rightarrow> error + int" where
  "Noeud_f self = (case Noeud_h self of Inl e \<Rightarrow> Inl e | Inr hv \<Rightarrow> Inr (hv + Noeud_g self))"

section \<open>class Solution\<close>

text \<open>
  \<^verbatim>\<open>sorted(list(queue), key=lambda noeud: noeud.f)\<close>: the key of every element is
  computed first, in order (the first exception is raised), then the elements are sorted
  by key with a stable sort.
\<close>

fun keys_f :: "noeud list \<Rightarrow> error + (int \<times> noeud) list" where
  "keys_f [] = Inr []"
| "keys_f (n # ns) =
     (case Noeud_f n of
        Inl e \<Rightarrow> Inl e
      | Inr k \<Rightarrow> (case keys_f ns of Inl e \<Rightarrow> Inl e | Inr ks \<Rightarrow> Inr ((k, n) # ks)))"

definition sorted_f :: "noeud list \<Rightarrow> error + noeud list" where
  "sorted_f queue =
     (case keys_f queue of Inl e \<Rightarrow> Inl e | Inr ks \<Rightarrow> Inr (map snd (sort_key fst ks)))"

text \<open>
  The \<^verbatim>\<open>for move, action in noeud.actions\<close> loop of \<^verbatim>\<open>resoudre\<close>:
  \<^verbatim>\<open>appendleft\<close> puts the child at the front of the queue.
\<close>

fun expand ::
  "noeud \<Rightarrow> move list \<Rightarrow> noeud list \<Rightarrow> string set \<Rightarrow> error + (noeud list \<times> string set)" where
  "expand noeud [] queue rs = Inr (queue, rs)"
| "expand noeud ((mv, action) # ms) queue rs =
     (case mv () of
        Inl e \<Rightarrow> Inl e
      | Inr pz \<Rightarrow>
          (let enfant = Noeud pz (Some noeud) (Some action)
           in if Noeud_etat enfant \<notin> rs
              then expand noeud ms (enfant # queue) (insert (Noeud_etat enfant) rs)
              else expand noeud ms queue rs))"

text \<open>
  One pass through the body of the \<^verbatim>\<open>while queue\<close> loop, entered with a non-empty
  queue: either the function returns the path of the popped node, or the loop goes on
  with a new queue and a new visited set.
\<close>

datatype pass = Return "noeud list" | Continue "noeud list" "string set"

definition loop_body :: "noeud list \<Rightarrow> string set \<Rightarrow> error + pass" where
  "loop_body queue rs =
     (case sorted_f queue of
        Inl e \<Rightarrow> Inl e
      | Inr queue1 \<Rightarrow>
          (let noeud = hd queue1; queue2 = tl queue1
           in if Noeud_est_resolu noeud then Inr (Return (Noeud_chemin noeud))
              else (case Noeud_actions noeud of
                      Inl e \<Rightarrow> Inl e
                    | Inr moves \<Rightarrow>
                        (case expand noeud moves queue2 rs of
                           Inl e \<Rightarrow> Inl e
                         | Inr (queue3, rs3) \<Rightarrow> Inr (Continue queue3 rs3)))))"

section \<open>Construction of a puzzle\<close>

lemma getitem_0: "getitem xs 0 = (case xs of [] \<Rightarrow> Inl IndexError | x # _ \<Rightarrow> Inr x)"
  by (cases xs) (simp_all add: getitem_def index_of_def)

text \<open>
  Claim C9 (as amended). \<^verbatim>\<open>Puzzle.__init__\<close> validates nothing: on every non-empty grid
  it succeeds, keeps the grid as it is and sets \<open>largeur\<close> to the length of the first
  row. No \<^verbatim>\<open>MalformedBoardError\<close> exists in the code.
\<close>

theorem Puzzle_init_no_validation:
  "tbl \<noteq> [] \<Longrightarrow> Puzzle_init tbl = Inr \<lparr>largeur = length (hd tbl), table = tbl\<rparr>"
  by (cases tbl) (simp_all add: Puzzle_init_def getitem_0)

theorem Puzzle_init_no_validation_witness:
  "[[1, 2, 3], [4, 0, 6], [7, 5, 8]] \<noteq> ([] :: int list list) \<and>
   Puzzle_init [[1, 2, 3], [4, 0, 6], [7, 5, 8]] =
     Inr \<lparr>largeur = 3, table = [[1, 2, 3], [4, 0, 6], [7, 5, 8]]\<rparr>"
  using Puzzle_init_no_validation [of "[[1, 2, 3], [4, 0, 6], [7, 5, 8]]"] by simp

text \<open>
  The claim as stated fails: a grid that is not square, a grid with a repeated value and
  no blank, and a grid with two blanks are all accepted.
\<close>

theorem Puzzle_init_malformed_accepted:
  "Puzzle_init [[0, 1, 2]] = Inr \<lparr>largeur = 3, table = [[0, 1, 2]]\<rparr> \<and>
   Puzzle_init [[1, 1], [1, 1]] = Inr \<lparr>largeur = 2, table = [[1, 1], [1, 1]]\<rparr> \<and>
   Puzzle_init [[0, 0], [1, 2]] = Inr \<lparr>largeur = 2, table = [[0, 0], [1, 2]]\<rparr>"
  by (simp add: Puzzle_init_def getitem_0)

end
